theory Spec2Isabelle
  imports Complex_Main "HOL-Library.Word"
begin

section \<open>Configuration and types\<close>

text \<open>
  The game modes of \<^verbatim>\<open>GAME_MODES\<close> of \<^verbatim>\<open>index.tsx\<close>. The mode \<^verbatim>\<open>GAME_MODES.CARD\<close> is
  the constructor \<open>CARD'\<close>, since \<open>CARD\<close> is syntax of the logic. A JavaScript string is
  modelled as a \<^typ>\<open>string\<close>: the program only compares strings for equality and tests
  them for emptiness.

  The interface \<^verbatim>\<open>Question\<close> exists at compile time only. The one place that produces a
  question is \<^verbatim>\<open>JSON.parse(text) as Question\<close>, a cast that checks nothing, so at run time
  a question is whatever value the parser returned. The model has no record for the
  interface: a question is a parsed value (the type \<open>json\<close> below), and its fields are read
  as the program reads them, by property access.
\<close>

datatype GameMode = SONG | IDOL | CARD' | MENU

section \<open>The question provider\<close>

subsection \<open>The response schema\<close>

text \<open>
  The fragment of the schema language that \<^verbatim>\<open>getQuestionSchema\<close> uses: strings, arrays
  with an item schema, objects with properties and a list of required property names.
  A string or array node carries its description, the empty one where the source gives
  none.
\<close>

datatype Schema =
    STRING string
  | ARRAY Schema string
  | OBJECT "(string \<times> Schema) list" "string list"

definition getQuestionSchema :: Schema where
  "getQuestionSchema =
     OBJECT
       [(''questionText'', STRING ''The main question or description''),
        (''details'', STRING ''Supplemental info (e.g. lyrics, hints, card details)''),
        (''options'', ARRAY (STRING []) ''A list of 4 possible answers''),
        (''correctAnswer'', STRING ''The exact string from the options list that is correct''),
        (''explanation'', STRING ''Brief explanation why it is correct'')]
       [''questionText'', ''options'', ''correctAnswer'', ''explanation'']"

text \<open>
  The values \<^verbatim>\<open>JSON.parse\<close> can return. An object is the list of its properties;
  a number is the rational it denotes (every finite double is one).
\<close>

datatype json =
    JNull
  | JBool bool
  | JNum rat
  | JStr string
  | JArr "json list"
  | JObj "(string \<times> json) list"

text \<open>
  What it means for a parsed value to have the declared shape: the type of every node
  matches, every required property is present, and every declared property that is
  present conforms to its own schema. The schema declares no number of items for
  \<^verbatim>\<open>options\<close>; the 4 stands in the description only.
\<close>

fun conforms :: "Schema \<Rightarrow> json \<Rightarrow> bool" where
  "conforms (STRING d) j = (case j of JStr s \<Rightarrow> True | _ \<Rightarrow> False)"
| "conforms (ARRAY items d) j =
     (case j of JArr xs \<Rightarrow> list_all (conforms items) xs | _ \<Rightarrow> False)"
| "conforms (OBJECT properties required) j =
     (case j of
        JObj kvs \<Rightarrow>
          list_all (\<lambda>k. map_of kvs k \<noteq> None) required \<and>
          list_all (\<lambda>p. case map_of kvs (fst p) of
                            None \<Rightarrow> True
                          | Some v \<Rightarrow> conforms (snd p) v) properties
      | _ \<Rightarrow> False)"

subsection \<open>The request\<close>

record GenerateContentParameters =
  model :: string
  contents :: string
  systemInstruction :: string
  responseMimeType :: string
  responseSchema :: Schema
  temperature :: nat

text \<open>
  How the awaited call \<^verbatim>\<open>ai.models.generateContent\<close> settles: the promise is rejected
  (the \<^verbatim>\<open>await\<close> throws), or it resolves with a response whose \<^verbatim>\<open>text\<close> is a string
  or \<^verbatim>\<open>undefined\<close> (\<open>None\<close>).
\<close>

datatype Upstream = Rejects | Resolves "string option"

datatype Error = RequestFailed | NoResponseFromAI | SyntaxError

text \<open>
  JavaScript truthiness of a value of type \<^verbatim>\<open>string | null\<close> or
  \<^verbatim>\<open>string | undefined\<close>: the empty string is falsy, as the missing value is.
\<close>

definition truthy :: "string option \<Rightarrow> bool" where
  "truthy v = (case v of None \<Rightarrow> False | Some s \<Rightarrow> s \<noteq> [])"

definition promptFor :: "GameMode \<Rightarrow> string \<times> string" where
  "promptFor mode =
     (if mode = SONG then
        (''You are a K-pop expert. Generate a trivia question about a famous K-pop song. The question should either provide translated lyrics (English or Traditional Chinese), a description of a key dance move, or a description of the MV.'',
         ''Generate a multiple choice question where the user guesses the K-pop Song Title. Provide 4 realistic song options.'')
      else if mode = IDOL then
        (''You are a K-pop expert. Describe a popular K-pop idol without naming them directly. Use clues like their group position, a famous nickname, a unique talent, or a specific viral moment.'',
         ''Generate a multiple choice question where the user guesses the Idol's Name. Provide 4 options (names).'')
      else if mode = CARD' then
        (''You are a K-pop photocard trading expert. Describe a specific, real K-pop photocard (Group, Member, Album/Event, Version). Estimate its market value range in USD.'',
         ''Generate a question asking the user to guess the price range of a specific photocard. The options should be price ranges (e.g., '$5 - $10', '$30 - $50'). Make sure the description is detailed (e.g., 'Wonyoung Love Dive Broadcast Card').'')
      else ([], []))"

text \<open>
  The request \<^verbatim>\<open>fetchGameQuestion\<close> sends for a mode.
\<close>

definition requestFor :: "GameMode \<Rightarrow> GenerateContentParameters" where
  "requestFor mode =
     (let (instruction, prompt) = promptFor mode in
      \<lparr>model = ''gemini-2.5-flash'',
       contents = prompt,
       systemInstruction = instruction,
       responseMimeType = ''application/json'',
       responseSchema = getQuestionSchema,
       temperature = 1\<rparr>)"

text \<open>
  \<^verbatim>\<open>fetchGameQuestion\<close>. The two things the repository does not contain are parameters:
  \<open>generateContent\<close> is the service, giving for the request of this call how the call
  settles, and \<open>JSON_parse\<close> is the platform's \<^verbatim>\<open>JSON.parse\<close>, \<open>None\<close> where it throws a
  \<^verbatim>\<open>SyntaxError\<close>. The function is polymorphic in what the parser returns, because
  \<^verbatim>\<open>JSON.parse(text) as Question\<close> is a cast that checks nothing: the parsed value is
  returned as it is. An exception is a result \<open>Inl\<close>.
\<close>

definition fetchGameQuestion ::
  "(string \<Rightarrow> 'q option) \<Rightarrow> (GenerateContentParameters \<Rightarrow> Upstream) \<Rightarrow> GameMode \<Rightarrow> Error + 'q"
where
  "fetchGameQuestion JSON_parse generateContent mode =
     (case generateContent (requestFor mode) of
        Rejects \<Rightarrow> Inl RequestFailed
      | Resolves text \<Rightarrow>
          if \<not> truthy text then Inl NoResponseFromAI
          else (case text of
                  None \<Rightarrow> Inl NoResponseFromAI
                | Some t \<Rightarrow>
                    (case JSON_parse t of
                       None \<Rightarrow> Inl SyntaxError
                     | Some q \<Rightarrow> Inr q)))"


section \<open>Values at run time\<close>

type_synonym Question = json

text \<open>
  JavaScript truthiness of a parsed value: \<^verbatim>\<open>null\<close>, \<^verbatim>\<open>false\<close>, \<^verbatim>\<open>0\<close> and the empty
  string are falsy, every other value is truthy.
\<close>

fun truthyValue :: "json \<Rightarrow> bool" where
  "truthyValue JNull = False"
| "truthyValue (JBool b) = b"
| "truthyValue (JNum n) = (n \<noteq> 0)"
| "truthyValue (JStr s) = (s \<noteq> [])"
| "truthyValue (JArr xs) = True"
| "truthyValue (JObj kvs) = True"

text \<open>
  Reading a property, \<^verbatim>\<open>v.k\<close> and \<^verbatim>\<open>v?.k\<close>, for the five names the program reads
  (\<^verbatim>\<open>questionText\<close>, \<^verbatim>\<open>details\<close>, \<^verbatim>\<open>options\<close>, \<^verbatim>\<open>correctAnswer\<close>, \<^verbatim>\<open>explanation\<close>);
  \<open>None\<close> is \<^verbatim>\<open>undefined\<close>. An object has the properties the parser gave it (should a
  name stand twice in the list, its first entry is the property). A string,
  a number, a boolean and an array have none of the five, and on \<^verbatim>\<open>null\<close> the program only
  ever reads with \<^verbatim>\<open>?.\<close>, which gives \<^verbatim>\<open>undefined\<close>.
\<close>

fun property :: "json \<Rightarrow> string \<Rightarrow> json option" where
  "property (JObj kvs) k = map_of kvs k"
| "property v k = None"

text \<open>
  Strict equality \<^verbatim>\<open>x === y\<close> of a parsed value \<open>x\<close> and a value \<open>y\<close> read from a property.
  Primitive values are compared by value; nothing equals \<^verbatim>\<open>undefined\<close> but itself. Arrays
  and objects are compared by identity, and two values taken from different places of one
  parsed value are never the same object, so they are never equal.
\<close>

fun strictEquals :: "json \<Rightarrow> json option \<Rightarrow> bool" where
  "strictEquals JNull (Some JNull) = True"
| "strictEquals (JBool a) (Some (JBool b)) = (a = b)"
| "strictEquals (JNum a) (Some (JNum b)) = (a = b)"
| "strictEquals (JStr a) (Some (JStr b)) = (a = b)"
| "strictEquals x y = False"

text \<open>
  What React accepts as a child of an element, \<^verbatim>\<open>{v}\<close> in the markup: a string or a
  number is rendered as text, \<^verbatim>\<open>null\<close>, \<^verbatim>\<open>undefined\<close> and the booleans render nothing,
  an array renders its items. An object is not a valid child: rendering it throws.
\<close>

fun validChild :: "json \<Rightarrow> bool" where
  "validChild (JObj kvs) = False"
| "validChild (JArr xs) = list_all validChild xs"
| "validChild v = True"

definition validChildOrUndefined :: "json option \<Rightarrow> bool" where
  "validChildOrUndefined c = (case c of None \<Rightarrow> True | Some v \<Rightarrow> validChild v)"

section \<open>The game session\<close>

text \<open>
  The state of one mounted \<^verbatim>\<open>GameSession\<close> component: its five \<^verbatim>\<open>useState\<close> cells. In
  the cells \<^verbatim>\<open>question\<close> and \<^verbatim>\<open>selectedOption\<close> the value \<^verbatim>\<open>null\<close> is \<open>JNull\<close>, whether
  it is the initial \<^verbatim>\<open>null\<close> or a parsed one: the program cannot tell them apart. In
  \<^verbatim>\<open>isCorrect\<close>, \<^verbatim>\<open>null\<close> is \<open>None\<close>. The counters are JavaScript numbers, modelled as
  unbounded integers (they stay exact below \<open>2 ^ 53\<close>).
\<close>

record GameSession =
  question :: Question
  loading :: bool
  selectedOption :: json
  isCorrect :: "bool option"
  streak :: int

text \<open>The initial values of the five cells when the component mounts.\<close>

definition mountGameSession :: GameSession where
  "mountGameSession =
     \<lparr>question = JNull, loading = True, selectedOption = JNull, isCorrect = None, streak = 0\<rparr>"

text \<open>
  \<^verbatim>\<open>loadQuestion\<close> is asynchronous. \<open>loadQuestion_start\<close> is what it does before the
  \<^verbatim>\<open>await\<close>; \<open>loadQuestion_settle\<close> is the rest, given how \<^verbatim>\<open>fetchGameQuestion\<close> settled: the
  \<^verbatim>\<open>try\<close> branch stores what the fetch returned, the \<^verbatim>\<open>catch\<close> branch only logs the
  error, and \<^verbatim>\<open>finally\<close> clears \<^verbatim>\<open>loading\<close> on both. \<open>loadQuestion\<close> is the whole call.
  The parser is taken at the type of parsed values: the session stores the value as the
  parser returned it.
\<close>

definition loadQuestion_start :: "GameSession \<Rightarrow> GameSession" where
  "loadQuestion_start s =
     s\<lparr>loading := True, question := JNull, selectedOption := JNull, isCorrect := None\<rparr>"

definition loadQuestion_settle :: "Error + Question \<Rightarrow> GameSession \<Rightarrow> GameSession" where
  "loadQuestion_settle fetched s =
     (case fetched of
        Inr q \<Rightarrow> s\<lparr>question := q\<rparr>
      | Inl error \<Rightarrow> s)\<lparr>loading := False\<rparr>"

definition loadQuestion ::
  "(string \<Rightarrow> json option) \<Rightarrow> (GenerateContentParameters \<Rightarrow> Upstream) \<Rightarrow> GameMode \<Rightarrow>
     GameSession \<Rightarrow> GameSession"
where
  "loadQuestion JSON_parse generateContent mode s =
     loadQuestion_settle (fetchGameQuestion JSON_parse generateContent mode) (loadQuestion_start s)"

text \<open>
  \<^verbatim>\<open>handleAnswer\<close>, as the closure of the latest render: it reads the current cells. Its
  argument is an item of the \<^verbatim>\<open>options\<close> array, so it is a parsed value. The result is the
  new state of the component and the argument of the call of the \<^verbatim>\<open>updateScore\<close> prop, if
  it is called. The guard tests \<^verbatim>\<open>selectedOption\<close> for truthiness.
\<close>

definition handleAnswer :: "json \<Rightarrow> GameSession \<Rightarrow> GameSession \<times> int option" where
  "handleAnswer option s =
     (if truthyValue (selectedOption s) then (s, None)
      else
        let correct = strictEquals option (property (question s) ''correctAnswer'') in
        if correct then
          (s\<lparr>selectedOption := option, isCorrect := Some correct, streak := streak s + 1\<rparr>,
           Some (10 + streak s * 2))
        else
          (s\<lparr>selectedOption := option, isCorrect := Some correct, streak := 0\<rparr>, None))"

subsection \<open>What the component renders\<close>

text \<open>
  \<^verbatim>\<open>String.fromCharCode\<close> of one argument: the string of the single UTF-16 code unit that
  the number is, modulo \<open>2 ^ 16\<close>. The model returns the code unit.
\<close>

definition fromCharCode :: "nat \<Rightarrow> 16 word" where
  "fromCharCode n = of_nat n"

text \<open>
  The option buttons, \<^verbatim>\<open>question.options.map((option, idx) => ...)\<close>, for the items of the
  array: for each item, in the order of the array, the label in the round badge and the
  item, which is both the child of the button and the argument its click passes to
  \<^verbatim>\<open>handleAnswer\<close>.
\<close>

definition optionButtons :: "json list \<Rightarrow> (16 word \<times> json) list" where
  "optionButtons xs =
     map (\<lambda>(idx, option). (fromCharCode (65 + idx), option)) (enumerate 0 xs)"

datatype Panel =
    ResultView bool "json option"
  | OptionButtons "(16 word \<times> json) list"

datatype Content =
    LoadingSpinner
  | QuestionCard Question Panel
  | LoadFailed
  | RenderThrows

text \<open>
  The content area of the component: the spinner while loading; with a truthy question,
  the question card and either the result (once \<^verbatim>\<open>isCorrect\<close> is not \<^verbatim>\<open>null\<close>) or the option
  buttons; with a falsy question, the failure message and the retry button.

  Rendering the card can throw. The card has \<^verbatim>\<open>question.questionText\<close> as a child and,
  when \<^verbatim>\<open>question.details\<close> is truthy, that too (a falsy value is itself the child, and it
  is a valid one); the result has \<^verbatim>\<open>question.explanation\<close> as a child; every button has
  its option as a child. \<^verbatim>\<open>question.options.map\<close> throws a \<^verbatim>\<open>TypeError\<close> unless
  \<^verbatim>\<open>question.options\<close> is an array. No error boundary is mounted, so a render that throws
  makes React unmount the whole tree: \<open>RenderThrows\<close>.
\<close>

definition renderContent :: "GameSession \<Rightarrow> Content" where
  "renderContent s =
     (if loading s then LoadingSpinner
      else if truthyValue (question s) then
        (let q = question s in
         if \<not> validChildOrUndefined (property q ''questionText'') \<or>
            \<not> validChildOrUndefined (property q ''details'')
         then RenderThrows
         else
           (case isCorrect s of
              Some c \<Rightarrow>
                if validChildOrUndefined (property q ''explanation'')
                then QuestionCard q (ResultView c (property q ''explanation''))
                else RenderThrows
            | None \<Rightarrow>
                (case property q ''options'' of
                   Some (JArr xs) \<Rightarrow>
                     if list_all validChild xs
                     then QuestionCard q (OptionButtons (optionButtons xs))
                     else RenderThrows
                 | _ \<Rightarrow> RenderThrows)))
      else LoadFailed)"

text \<open>The streak badge is rendered only when the streak exceeds 1.\<close>

definition streakBadge :: "GameSession \<Rightarrow> int option" where
  "streakBadge s = (if streak s > 1 then Some (streak s) else None)"

section \<open>The application\<close>

text \<open>
  The state of the whole tree: the two cells of \<^verbatim>\<open>App\<close> and, while the mode is not the
  menu, the state of the mounted \<^verbatim>\<open>GameSession\<close>. In the menu no \<^verbatim>\<open>GameSession\<close> is
  rendered, so the component is unmounted and its state is gone.
\<close>

record App =
  currentMode :: GameMode
  score :: int
  session :: "GameSession option"

definition initialApp :: App where
  "initialApp = \<lparr>currentMode = MENU, score = 0, session = None\<rparr>"

definition handleScoreUpdate :: "int \<Rightarrow> App \<Rightarrow> App" where
  "handleScoreUpdate points a = a\<lparr>score := score a + points\<rparr>"

text \<open>
  The click on an option button, in the application: \<^verbatim>\<open>handleAnswer\<close> on the mounted
  session, with \<^verbatim>\<open>handleScoreUpdate\<close> as its \<^verbatim>\<open>updateScore\<close> prop.
\<close>

definition answer :: "json \<Rightarrow> App \<Rightarrow> App" where
  "answer option a =
     (case session a of
        None \<Rightarrow> a
      | Some s \<Rightarrow>
          (case handleAnswer option s of
             (s', None) \<Rightarrow> a\<lparr>session := Some s'\<rparr>
           | (s', Some points) \<Rightarrow> handleScoreUpdate points (a\<lparr>session := Some s'\<rparr>)))"

text \<open>
  \<^verbatim>\<open>onBack\<close>: the mode becomes the menu, which unmounts the session. The score is a cell
  of \<^verbatim>\<open>App\<close> and stays.
\<close>

definition goToMenu :: "App \<Rightarrow> App" where
  "goToMenu a = a\<lparr>currentMode := MENU, session := None\<rparr>"

text \<open>
  A click on one of the three menu buttons: the mode is set, \<^verbatim>\<open>GameSession\<close> mounts with
  its initial cells, and its effect starts \<^verbatim>\<open>loadQuestion\<close>.
\<close>

definition selectMode :: "GameMode \<Rightarrow> App \<Rightarrow> App" where
  "selectMode m a = a\<lparr>currentMode := m, session := Some (loadQuestion_start mountGameSession)\<rparr>"

text \<open>
  What can happen next. A click is possible only on a control that the current render
  shows; the pending fetch settles only while the session is loading. \<open>ClickOption i\<close>
  is the click on the \<open>i\<close>-th option button. \<open>Settles g\<close> is the settling of the pending
  call of \<^verbatim>\<open>fetchGameQuestion\<close>, \<open>g\<close> being the service's behaviour for that call.
\<close>

datatype Event =
    ClickMode GameMode
  | ClickBack
  | ClickOption nat
  | ClickNext
  | ClickRetry
  | Settles "GenerateContentParameters \<Rightarrow> Upstream"

definition inSession :: "(GameSession \<Rightarrow> GameSession) \<Rightarrow> App \<Rightarrow> App" where
  "inSession f a = a\<lparr>session := map_option f (session a)\<rparr>"

text \<open>
  One step of the application; \<open>None\<close> when the event cannot happen in this state. The
  menu is rendered when the mode is the menu, the session otherwise. Where the render of
  the session has thrown, the tree is unmounted: no control is left, the back button of
  the session's header included, and nothing can happen any more. The record then holds
  what the cells held when the render threw.
\<close>

definition step :: "(string \<Rightarrow> json option) \<Rightarrow> App \<Rightarrow> Event \<Rightarrow> App option" where
  "step JSON_parse a e =
     (if currentMode a = MENU then
        (case e of
           ClickMode m \<Rightarrow>
             if m = SONG \<or> m = IDOL \<or> m = CARD' then Some (selectMode m a) else None
         | _ \<Rightarrow> None)
      else
        (case session a of
           None \<Rightarrow> None
         | Some s \<Rightarrow>
             if renderContent s = RenderThrows then None
             else
               (case e of
                  ClickBack \<Rightarrow> Some (goToMenu a)
                | Settles g \<Rightarrow>
                    if loading s
                    then Some (inSession (loadQuestion_settle
                                 (fetchGameQuestion JSON_parse g (currentMode a))) a)
                    else None
                | ClickOption i \<Rightarrow>
                    (case renderContent s of
                       QuestionCard q (OptionButtons bs) \<Rightarrow>
                         if i < length bs then Some (answer (snd (bs ! i)) a) else None
                     | _ \<Rightarrow> None)
                | ClickNext \<Rightarrow>
                    (case renderContent s of
                       QuestionCard q (ResultView c ex) \<Rightarrow>
                         Some (inSession loadQuestion_start a)
                     | _ \<Rightarrow> None)
                | ClickRetry \<Rightarrow>
                    (case renderContent s of
                       LoadFailed \<Rightarrow> Some (inSession loadQuestion_start a)
                     | _ \<Rightarrow> None)
                | ClickMode m \<Rightarrow> None)))"

fun run :: "(string \<Rightarrow> json option) \<Rightarrow> App \<Rightarrow> Event list \<Rightarrow> App option" where
  "run JSON_parse a [] = Some a"
| "run JSON_parse a (e # es) =
     (case step JSON_parse a e of None \<Rightarrow> None | Some a' \<Rightarrow> run JSON_parse a' es)"

text \<open>
  The states of the session the specification names. Presenting: a question is held and
  rendered with its option buttons, nothing is selected. Answered: an answer has been
  recorded. Error display: no question is shown and the failure message is.
\<close>

definition presenting :: "GameSession \<Rightarrow> Question \<Rightarrow> bool" where
  "presenting s q \<longleftrightarrow>
     \<not> loading s \<and> question s = q \<and> selectedOption s = JNull \<and> isCorrect s = None \<and>
     (case renderContent s of QuestionCard q' (OptionButtons bs) \<Rightarrow> True | _ \<Rightarrow> False)"


definition errorDisplay :: "GameSession \<Rightarrow> bool" where
  "errorDisplay s \<longleftrightarrow>
     \<not> loading s \<and> \<not> truthyValue (question s) \<and>
     selectedOption s = JNull \<and> isCorrect s = None"

subsection \<open>Sample data\<close>

text \<open>
  Six responses of the service and what \<^verbatim>\<open>JSON.parse\<close> returns for them: a question as
  the data model wants it; the empty object; a question with two options whose correct
  answer is none of them; one whose first option is the empty string; one whose first
  option is \<^verbatim>\<open>null\<close>; and the text \<^verbatim>\<open>null\<close>. \<open>JSON_parse_value\<close> is \<^verbatim>\<open>JSON.parse\<close> on
  these six texts and rejects every other text.
\<close>

definition quoted :: "string \<Rightarrow> string" where
  "quoted s = CHR 0x22 # s @ [CHR 0x22]"

definition sampleText :: string where
  "sampleText =
     ''{'' @ quoted ''questionText'' @ '':'' @ quoted ''Which song?'' @ '','' @
     quoted ''options'' @ '':['' @ quoted ''Dynamite'' @ '','' @ quoted ''Butter'' @ '','' @
     quoted ''Fake Love'' @ '','' @ quoted ''Idol'' @ ''],'' @
     quoted ''correctAnswer'' @ '':'' @ quoted ''Butter'' @ '','' @
     quoted ''explanation'' @ '':'' @ quoted ''It is Butter.'' @ ''}''"

definition sampleValue :: json where
  "sampleValue =
     JObj [(''questionText'', JStr ''Which song?''),
           (''options'', JArr [JStr ''Dynamite'', JStr ''Butter'', JStr ''Fake Love'', JStr ''Idol'']),
           (''correctAnswer'', JStr ''Butter''),
           (''explanation'', JStr ''It is Butter.'')]"

definition unwinnableText :: string where
  "unwinnableText =
     ''{'' @ quoted ''questionText'' @ '':'' @ quoted ''Which song?'' @ '','' @
     quoted ''options'' @ '':['' @ quoted ''Dynamite'' @ '','' @ quoted ''Idol'' @ ''],'' @
     quoted ''correctAnswer'' @ '':'' @ quoted ''Butter'' @ '','' @
     quoted ''explanation'' @ '':'' @ quoted ''It is Butter.'' @ ''}''"

definition unwinnableValue :: json where
  "unwinnableValue =
     JObj [(''questionText'', JStr ''Which song?''),
           (''options'', JArr [JStr ''Dynamite'', JStr ''Idol'']),
           (''correctAnswer'', JStr ''Butter''),
           (''explanation'', JStr ''It is Butter.'')]"

definition blankOptionText :: string where
  "blankOptionText =
     ''{'' @ quoted ''questionText'' @ '':'' @ quoted ''Which song?'' @ '','' @
     quoted ''options'' @ '':['' @ quoted [] @ '','' @ quoted ''Butter'' @ '','' @
     quoted ''Fake Love'' @ '','' @ quoted ''Idol'' @ ''],'' @
     quoted ''correctAnswer'' @ '':'' @ quoted ''Butter'' @ '','' @
     quoted ''explanation'' @ '':'' @ quoted ''It is Butter.'' @ ''}''"

definition blankOptionValue :: json where
  "blankOptionValue =
     JObj [(''questionText'', JStr ''Which song?''),
           (''options'', JArr [JStr [], JStr ''Butter'', JStr ''Fake Love'', JStr ''Idol'']),
           (''correctAnswer'', JStr ''Butter''),
           (''explanation'', JStr ''It is Butter.'')]"

definition nullOptionText :: string where
  "nullOptionText =
     ''{'' @ quoted ''questionText'' @ '':'' @ quoted ''Which song?'' @ '','' @
     quoted ''options'' @ '':[null,'' @ quoted ''Butter'' @ '','' @
     quoted ''Fake Love'' @ '','' @ quoted ''Idol'' @ ''],'' @
     quoted ''correctAnswer'' @ '':'' @ quoted ''Butter'' @ '','' @
     quoted ''explanation'' @ '':'' @ quoted ''It is Butter.'' @ ''}''"

definition nullOptionValue :: json where
  "nullOptionValue =
     JObj [(''questionText'', JStr ''Which song?''),
           (''options'', JArr [JNull, JStr ''Butter'', JStr ''Fake Love'', JStr ''Idol'']),
           (''correctAnswer'', JStr ''Butter''),
           (''explanation'', JStr ''It is Butter.'')]"

definition JSON_parse_value :: "string \<Rightarrow> json option" where
  "JSON_parse_value t =
     (if t = sampleText then Some sampleValue
      else if t = ''{}'' then Some (JObj [])
      else if t = unwinnableText then Some unwinnableValue
      else if t = blankOptionText then Some blankOptionValue
      else if t = nullOptionText then Some nullOptionValue
      else if t = ''null'' then Some JNull
      else None)"

text \<open>A service that answers every request with the given text.\<close>

definition respondsWith :: "string \<Rightarrow> GenerateContentParameters \<Rightarrow> Upstream" where
  "respondsWith t request = Resolves (Some t)"

text \<open>A service whose call fails.\<close>

definition unreachableService :: "GenerateContentParameters \<Rightarrow> Upstream" where
  "unreachableService request = Rejects"

text \<open>
  A session that presents the first sample question after two correct answers in a row,
  and the application around it; the same with the unwinnable question; the application
  after the first sample question has been loaded in the song mode and its second option,
  the correct one, has been chosen; and the sessions reached by choosing the first option
  of the question with the empty option and of the question with the \<^verbatim>\<open>null\<close> option.
\<close>

definition sampleSession :: GameSession where
  "sampleSession =
     \<lparr>question = sampleValue, loading = False, selectedOption = JNull,
      isCorrect = None, streak = 2\<rparr>"

definition sampleApp :: App where
  "sampleApp = \<lparr>currentMode = SONG, score = 22, session = Some sampleSession\<rparr>"

definition unwinnableSession :: GameSession where
  "unwinnableSession =
     \<lparr>question = unwinnableValue, loading = False, selectedOption = JNull,
      isCorrect = None, streak = 2\<rparr>"

definition sampleAnswered :: GameSession where
  "sampleAnswered =
     \<lparr>question = sampleValue, loading = False, selectedOption = JStr ''Butter'',
      isCorrect = Some True, streak = 1\<rparr>"

definition sampleAnsweredApp :: App where
  "sampleAnsweredApp = \<lparr>currentMode = SONG, score = 10, session = Some sampleAnswered\<rparr>"


definition nullAnswered :: GameSession where
  "nullAnswered =
     \<lparr>question = nullOptionValue, loading = False, selectedOption = JNull,
      isCorrect = Some False, streak = 0\<rparr>"

subsection \<open>Invariants\<close>

text \<open>
  What every step preserves. In the session: without a correctness there is no selection;
  while loading there is no correctness; with a correctness, the question has an array of
  options and the selection is one of its items; the streak is not negative. In the
  application: the score is not negative, and a session is mounted exactly when the mode
  is not the menu.
\<close>

definition sessionInv :: "GameSession \<Rightarrow> bool" where
  "sessionInv s \<longleftrightarrow>
     (isCorrect s = None \<longrightarrow> selectedOption s = JNull) \<and>
     (loading s \<longrightarrow> isCorrect s = None) \<and>
     (isCorrect s \<noteq> None \<longrightarrow>
        (case property (question s) ''options'' of
           Some (JArr xs) \<Rightarrow> selectedOption s \<in> set xs
         | _ \<Rightarrow> False)) \<and>
     0 \<le> streak s"

definition appInv :: "App \<Rightarrow> bool" where
  "appInv a \<longleftrightarrow>
     0 \<le> score a \<and> (currentMode a = MENU) = (session a = None) \<and>
     (case session a of None \<Rightarrow> True | Some s \<Rightarrow> sessionInv s)"

section \<open>Properties of the question provider\<close>

lemma fetchGameQuestion_cases:
  "fetchGameQuestion P g mode =
     (case g (requestFor mode) of
        Rejects \<Rightarrow> Inl RequestFailed
      | Resolves None \<Rightarrow> Inl NoResponseFromAI
      | Resolves (Some t) \<Rightarrow>
          if t = [] then Inl NoResponseFromAI
          else (case P t of None \<Rightarrow> Inl SyntaxError | Some q \<Rightarrow> Inr q))"
  by (simp add: fetchGameQuestion_def truthy_def split: Upstream.splits option.splits)

lemma sample_texts_differ:
  "sampleText \<noteq> unwinnableText" "sampleText \<noteq> blankOptionText"
  "unwinnableText \<noteq> blankOptionText" "sampleText \<noteq> ''{}''"
  "sampleText \<noteq> []" "unwinnableText \<noteq> []" "blankOptionText \<noteq> []"
  by (simp_all add: sampleText_def unwinnableText_def blankOptionText_def quoted_def)

lemma JSON_parse_value_simps:
  "JSON_parse_value sampleText = Some sampleValue"
  "JSON_parse_value ''{}'' = Some (JObj [])"
  "JSON_parse_value unwinnableText = Some unwinnableValue"
  "JSON_parse_value blankOptionText = Some blankOptionValue"
  "JSON_parse_value nullOptionText = Some nullOptionValue"
  "JSON_parse_value ''null'' = Some JNull"
  by (simp_all add: JSON_parse_value_def sampleText_def unwinnableText_def blankOptionText_def
        nullOptionText_def quoted_def)

lemma fetch_sample_simps:
  "fetchGameQuestion JSON_parse_value (respondsWith sampleText) mode = Inr sampleValue"
  "fetchGameQuestion JSON_parse_value (respondsWith ''{}'') mode = Inr (JObj [])"
  "fetchGameQuestion JSON_parse_value (respondsWith unwinnableText) mode = Inr unwinnableValue"
  "fetchGameQuestion JSON_parse_value (respondsWith blankOptionText) mode = Inr blankOptionValue"
  "fetchGameQuestion JSON_parse_value (respondsWith nullOptionText) mode = Inr nullOptionValue"
  "fetchGameQuestion JSON_parse_value (respondsWith ''null'') mode = Inr JNull"
  "fetchGameQuestion JSON_parse_value unreachableService mode = Inl RequestFailed"
  by (simp_all add: fetchGameQuestion_cases respondsWith_def unreachableService_def
        JSON_parse_value_simps)
     (simp_all add: sampleText_def unwinnableText_def blankOptionText_def nullOptionText_def
        quoted_def)

text \<open>
  Claim C4, as the code has it. \<^verbatim>\<open>fetchGameQuestion\<close> throws exactly when the call of the
  service is rejected, or the response has no text or the empty text, or \<^verbatim>\<open>JSON.parse\<close>
  throws on the text. Whenever the text is not empty and parses, the parsed value is
  returned as the question, whatever its shape; so a response that conforms to the schema
  is returned parsed.
\<close>

theorem fetchGameQuestion_fails_iff:
  "((\<exists>e. fetchGameQuestion P g mode = Inl e) \<longleftrightarrow>
      g (requestFor mode) = Rejects \<or>
      g (requestFor mode) = Resolves None \<or>
      g (requestFor mode) = Resolves (Some []) \<or>
      (\<exists>t. g (requestFor mode) = Resolves (Some t) \<and> P t = None)) \<and>
   (\<forall>t v. g (requestFor mode) = Resolves (Some t) \<and> t \<noteq> [] \<and> P t = Some v \<longrightarrow>
      fetchGameQuestion P g mode = Inr v)"
  by (cases "g (requestFor mode)")
     (auto simp: fetchGameQuestion_cases split: option.splits)

text \<open>
  The theorem at a response that conforms to the schema, and at a rejected call.
\<close>

theorem fetchGameQuestion_fails_iff_witness:
  "fetchGameQuestion JSON_parse_value (respondsWith sampleText) CARD' = Inr sampleValue \<and>
   conforms getQuestionSchema sampleValue \<and>
   fetchGameQuestion JSON_parse_value unreachableService CARD' = Inl RequestFailed"
proof -
  have 1: "respondsWith sampleText (requestFor CARD') = Resolves (Some sampleText)"
    by (simp add: respondsWith_def)
  have 2: "JSON_parse_value sampleText = Some sampleValue"
    by (simp add: JSON_parse_value_def)
  have 3: "conforms getQuestionSchema sampleValue"
    by (simp add: getQuestionSchema_def sampleValue_def)
  have 4: "fetchGameQuestion JSON_parse_value unreachableService CARD' = Inl RequestFailed"
    by (simp add: fetchGameQuestion_cases unreachableService_def)
  from fetchGameQuestion_fails_iff [of JSON_parse_value "respondsWith sampleText" CARD'] 1 2
    sample_texts_differ(5) 3 4
  show ?thesis by blast
qed

text \<open>
  Claim C4 as it is stated fails: the text \<^verbatim>\<open>{}\<close> is valid JSON that has none of the
  required properties, and \<^verbatim>\<open>fetchGameQuestion\<close> returns the empty object as the question
  instead of throwing.
\<close>

theorem fetchGameQuestion_nonconforming_counterexample:
  "fetchGameQuestion JSON_parse_value (respondsWith ''{}'') SONG = Inr (JObj []) \<and>
   \<not> conforms getQuestionSchema (JObj [])"
  using sample_texts_differ(4)
  by (simp add: fetchGameQuestion_cases respondsWith_def JSON_parse_value_def getQuestionSchema_def)

section \<open>Properties of the game session\<close>

lemma loadQuestion_unfold:
  "loadQuestion P g mode s =
     (case fetchGameQuestion P g mode of
        Inr q \<Rightarrow>
          s\<lparr>loading := False, question := q, selectedOption := JNull, isCorrect := None\<rparr>
      | Inl e \<Rightarrow>
          s\<lparr>loading := False, question := JNull, selectedOption := JNull, isCorrect := None\<rparr>)"
  by (simp add: loadQuestion_def loadQuestion_settle_def loadQuestion_start_def split: sum.splits)

text \<open>What is rendered when nothing is loading and no answer is recorded.\<close>

lemma renderContent_unanswered:
  assumes "\<not> loading s" and "isCorrect s = None"
  shows "renderContent s =
     (if \<not> truthyValue (question s) then LoadFailed
      else if validChildOrUndefined (property (question s) ''questionText'') \<and>
              validChildOrUndefined (property (question s) ''details'') \<and>
              (\<exists>xs. property (question s) ''options'' = Some (JArr xs) \<and> list_all validChild xs)
      then QuestionCard (question s)
             (OptionButtons (optionButtons
                (case property (question s) ''options'' of Some (JArr xs) \<Rightarrow> xs | _ \<Rightarrow> [])))
      else RenderThrows)"
  using assms
  by (auto simp: renderContent_def Let_def split: option.splits json.splits)

lemma presenting_iff:
  "presenting s q \<longleftrightarrow>
     \<not> loading s \<and> question s = q \<and> selectedOption s = JNull \<and> isCorrect s = None \<and>
     truthyValue q \<and>
     validChildOrUndefined (property q ''questionText'') \<and>
     validChildOrUndefined (property q ''details'') \<and>
     (\<exists>xs. property q ''options'' = Some (JArr xs) \<and> list_all validChild xs)"
proof (cases "\<not> loading s \<and> isCorrect s = None")
  case True
  then show ?thesis
    by (auto simp: presenting_def renderContent_unanswered)
next
  case False
  then show ?thesis by (auto simp: presenting_def)
qed

text \<open>A value of the declared shape is rendered without an exception.\<close>

lemma conforms_STRING_validChild: "conforms (STRING d) v \<Longrightarrow> validChild v"
  by (cases v) simp_all

lemma conforms_strings_validChild: "list_all (conforms (STRING d)) xs \<Longrightarrow> list_all validChild xs"
  by (induction xs) (simp_all add: conforms_STRING_validChild)

lemma conforms_renders:
  assumes "conforms getQuestionSchema q"
  shows "truthyValue q \<and>
         validChildOrUndefined (property q ''questionText'') \<and>
         validChildOrUndefined (property q ''details'') \<and>
         validChildOrUndefined (property q ''explanation'') \<and>
         (\<exists>xs. property q ''options'' = Some (JArr xs) \<and> list_all validChild xs)"
proof -
  from assms obtain kvs where q: "q = JObj kvs"
    by (cases q) (simp_all add: getQuestionSchema_def)
  from assms q have t: "conforms (STRING ''The main question or description'')
      (the (map_of kvs ''questionText''))"
    and e: "conforms (STRING ''Brief explanation why it is correct'')
      (the (map_of kvs ''explanation''))"
    and tq: "map_of kvs ''questionText'' \<noteq> None" and te: "map_of kvs ''explanation'' \<noteq> None"
    and topt: "map_of kvs ''options'' \<noteq> None"
    and o: "conforms (ARRAY (STRING []) ''A list of 4 possible answers'')
      (the (map_of kvs ''options''))"
    and d: "case map_of kvs ''details'' of None \<Rightarrow> True
      | Some v \<Rightarrow> conforms (STRING ''Supplemental info (e.g. lyrics, hints, card details)'') v"
    by (auto simp: getQuestionSchema_def split: option.splits)
  from o topt obtain xs where xs: "map_of kvs ''options'' = Some (JArr xs)"
    and all: "list_all (conforms (STRING [])) xs"
    by (cases "map_of kvs ''options''"; cases "the (map_of kvs ''options'')") auto
  from t tq have 1: "validChildOrUndefined (map_of kvs ''questionText'')"
    by (auto simp: validChildOrUndefined_def simp del: conforms.simps
          dest: conforms_STRING_validChild)
  from e te have 2: "validChildOrUndefined (map_of kvs ''explanation'')"
    by (auto simp: validChildOrUndefined_def simp del: conforms.simps
          dest: conforms_STRING_validChild)
  from d have 3: "validChildOrUndefined (map_of kvs ''details'')"
    by (auto simp: validChildOrUndefined_def simp del: conforms.simps
          dest: conforms_STRING_validChild split: option.splits)
  from 1 2 3 xs conforms_strings_validChild [OF all] show ?thesis
    by (simp add: q)
qed

text \<open>
  Claim C1, as the code has it. For every mode, \<^verbatim>\<open>loadQuestion\<close> keeps the streak, leaves
  no selection and no correctness, and ends in one of three ways. If the fetch threw, the
  question is \<^verbatim>\<open>null\<close> and the session shows the failure message. If the fetch returned,
  the session holds exactly the value it returned, checked in no way, and: a falsy value
  (\<^verbatim>\<open>null\<close> for one) shows the failure message although nothing was thrown; a truthy value
  whose text fields are valid children and whose \<^verbatim>\<open>options\<close> is an array of valid children
  is presented with its option buttons, whatever the number of options and whether or not
  the correct answer is one of them; for any other truthy value the render throws and the
  tree is unmounted. A value that conforms to the declared schema is always presented.
\<close>

theorem loadQuestion_outcome:
  "(case fetchGameQuestion P g mode of
      Inl e \<Rightarrow>
        question (loadQuestion P g mode s) = JNull \<and>
        errorDisplay (loadQuestion P g mode s) \<and>
        renderContent (loadQuestion P g mode s) = LoadFailed
    | Inr q \<Rightarrow>
        question (loadQuestion P g mode s) = q \<and>
        (if \<not> truthyValue q then
           errorDisplay (loadQuestion P g mode s) \<and>
           renderContent (loadQuestion P g mode s) = LoadFailed
         else if validChildOrUndefined (property q ''questionText'') \<and>
                 validChildOrUndefined (property q ''details'') \<and>
                 (\<exists>xs. property q ''options'' = Some (JArr xs) \<and> list_all validChild xs)
         then
           presenting (loadQuestion P g mode s) q \<and>
           (\<exists>xs. property q ''options'' = Some (JArr xs) \<and>
                 renderContent (loadQuestion P g mode s) =
                   QuestionCard q (OptionButtons (optionButtons xs)))
         else
           renderContent (loadQuestion P g mode s) = RenderThrows) \<and>
        (conforms getQuestionSchema q \<longrightarrow> presenting (loadQuestion P g mode s) q)) \<and>
   selectedOption (loadQuestion P g mode s) = JNull \<and>
   isCorrect (loadQuestion P g mode s) = None \<and>
   \<not> loading (loadQuestion P g mode s) \<and>
   streak (loadQuestion P g mode s) = streak s"
proof (cases "fetchGameQuestion P g mode")
  case (Inl e)
  then show ?thesis
    by (simp add: loadQuestion_unfold errorDisplay_def renderContent_def)
next
  case (Inr q)
  let ?s = "loadQuestion P g mode s"
  from Inr have s': "?s = s\<lparr>loading := False, question := q, selectedOption := JNull,
      isCorrect := None\<rparr>"
    by (simp add: loadQuestion_unfold)
  have cells: "\<not> loading ?s" "isCorrect ?s = None" "question ?s = q" "selectedOption ?s = JNull"
    "streak ?s = streak s"
    by (simp_all add: s')
  note r = renderContent_unanswered [OF cells(1) cells(2), unfolded cells(3)]
  have p: "presenting ?s q \<longleftrightarrow>
     truthyValue q \<and> validChildOrUndefined (property q ''questionText'') \<and>
     validChildOrUndefined (property q ''details'') \<and>
     (\<exists>xs. property q ''options'' = Some (JArr xs) \<and> list_all validChild xs)"
    using cells by (simp add: presenting_iff)
  have c: "presenting ?s q" if "conforms getQuestionSchema q"
    using conforms_renders [OF that] p by blast
  have e: "errorDisplay ?s" if "\<not> truthyValue q"
    using that cells by (simp add: errorDisplay_def)
  show ?thesis
    using Inr cells r p c e by auto
qed

text \<open>
  The theorem at a response with four options that hold the correct answer, at a rejected
  call and at the response \<^verbatim>\<open>null\<close>.
\<close>

theorem loadQuestion_outcome_witness:
  "fetchGameQuestion JSON_parse_value (respondsWith sampleText) IDOL = Inr sampleValue \<and>
   conforms getQuestionSchema sampleValue \<and>
   presenting (loadQuestion JSON_parse_value (respondsWith sampleText) IDOL mountGameSession)
     sampleValue \<and>
   errorDisplay (loadQuestion JSON_parse_value unreachableService IDOL mountGameSession) \<and>
   fetchGameQuestion JSON_parse_value (respondsWith ''null'') IDOL = Inr JNull \<and>
   errorDisplay (loadQuestion JSON_parse_value (respondsWith ''null'') IDOL mountGameSession)"
proof -
  have c: "conforms getQuestionSchema sampleValue"
    by (simp add: getQuestionSchema_def sampleValue_def)
  from loadQuestion_outcome [of JSON_parse_value "respondsWith sampleText" IDOL mountGameSession]
    loadQuestion_outcome [of JSON_parse_value unreachableService IDOL mountGameSession]
    loadQuestion_outcome [of JSON_parse_value "respondsWith ''null''" IDOL mountGameSession]
    c
  show ?thesis by (simp add: fetch_sample_simps)
qed

text \<open>
  Claim C1 as it is stated fails, in two ways. On a response with two options and a
  correct answer that is neither, \<^verbatim>\<open>loadQuestion\<close> ends presenting that question. On the
  response \<^verbatim>\<open>{}\<close> the fetch returns the empty object, which is truthy and has no
  \<^verbatim>\<open>options\<close>: the render throws, which is neither presenting nor the error display.
\<close>

theorem loadQuestion_unvalidated_counterexample:
  "presenting (loadQuestion JSON_parse_value (respondsWith unwinnableText) SONG mountGameSession)
     unwinnableValue \<and>
   property unwinnableValue ''options'' = Some (JArr [JStr ''Dynamite'', JStr ''Idol'']) \<and>
   length [JStr ''Dynamite'', JStr ''Idol''] \<noteq> 4 \<and>
   property unwinnableValue ''correctAnswer'' = Some (JStr ''Butter'') \<and>
   JStr ''Butter'' \<notin> set [JStr ''Dynamite'', JStr ''Idol''] \<and>
   renderContent (loadQuestion JSON_parse_value (respondsWith ''{}'') SONG mountGameSession) =
     RenderThrows"
  by (simp add: loadQuestion_unfold fetch_sample_simps presenting_def renderContent_def
        unwinnableValue_def validChildOrUndefined_def mountGameSession_def)

lemma handleAnswer_fresh:
  "\<not> truthyValue (selectedOption s) \<Longrightarrow>
   handleAnswer option s =
     (if strictEquals option (property (question s) ''correctAnswer'')
      then (s\<lparr>selectedOption := option, isCorrect := Some True, streak := streak s + 1\<rparr>,
            Some (10 + streak s * 2))
      else (s\<lparr>selectedOption := option, isCorrect := Some False, streak := 0\<rparr>, None))"
  by (simp add: handleAnswer_def)


lemma strictEquals_eq: "strictEquals x (Some v) \<Longrightarrow> x = v"
  by (cases x; cases v) simp_all

text \<open>
  Claim C2. In the presenting state with streak \<open>streak s\<close>, the answer that is strictly
  equal to the correct answer of the question records the selection as correct, makes the
  streak \<open>streak s + 1\<close> and adds \<open>10 + 2 * streak s\<close> to the score; any other answer
  records the selection as incorrect, makes the streak 0 and leaves the score as it is.
  Between two strings, strict equality is equality of the strings.
\<close>

theorem submitAnswer_scoring:
  assumes "session a = Some s" and "presenting s q"
  shows "(strictEquals option (property q ''correctAnswer'') \<longrightarrow>
            session (answer option a) =
              Some (s\<lparr>selectedOption := option, isCorrect := Some True,
                       streak := streak s + 1\<rparr>) \<and>
            score (answer option a) = score a + (10 + 2 * streak s)) \<and>
         (\<not> strictEquals option (property q ''correctAnswer'') \<longrightarrow>
            session (answer option a) =
              Some (s\<lparr>selectedOption := option, isCorrect := Some False, streak := 0\<rparr>) \<and>
            score (answer option a) = score a) \<and>
         (\<forall>x y. option = JStr x \<and> property q ''correctAnswer'' = Some (JStr y) \<longrightarrow>
            strictEquals option (property q ''correctAnswer'') = (x = y))"
proof -
  from assms(2) have q: "question s = q" and sel: "\<not> truthyValue (selectedOption s)"
    by (simp_all add: presenting_def)
  show ?thesis
    using assms(1) q
    by (auto simp: answer_def handleAnswer_fresh [OF sel] handleScoreUpdate_def)
qed

text \<open>
  The theorem at streak 2 and score 22: the correct answer gives 36 and streak 3, a wrong
  one gives 22 and streak 0.
\<close>

theorem submitAnswer_scoring_witness:
  "session sampleApp = Some sampleSession \<and> presenting sampleSession sampleValue \<and>
   property sampleValue ''correctAnswer'' = Some (JStr ''Butter'') \<and>
   score (answer (JStr ''Butter'') sampleApp) = 36 \<and>
   map_option streak (session (answer (JStr ''Butter'') sampleApp)) = Some 3 \<and>
   score (answer (JStr ''Idol'') sampleApp) = 22 \<and>
   map_option streak (session (answer (JStr ''Idol'') sampleApp)) = Some 0"
proof -
  have s: "session sampleApp = Some sampleSession"
    by (simp add: sampleApp_def)
  have p: "presenting sampleSession sampleValue"
    by (simp add: presenting_def sampleSession_def sampleValue_def renderContent_def
          validChildOrUndefined_def)
  have c: "property sampleValue ''correctAnswer'' = Some (JStr ''Butter'')"
    by (simp add: sampleValue_def)
  have v: "score sampleApp = 22" "streak sampleSession = 2"
    by (simp_all add: sampleApp_def sampleSession_def)
  from submitAnswer_scoring [OF s p, of "JStr ''Butter''"]
    submitAnswer_scoring [OF s p, of "JStr ''Idol''"] s p c v
  show ?thesis by simp
qed

section \<open>Properties of the application\<close>

subsection \<open>The option buttons\<close>

lemma length_optionButtons: "length (optionButtons xs) = length xs"
  by (simp add: optionButtons_def)

lemma optionButtons_nth:
  "i < length xs \<Longrightarrow> optionButtons xs ! i = (fromCharCode (65 + i), xs ! i)"
  by (simp add: optionButtons_def nth_enumerate_eq)

lemma map_snd_optionButtons: "map snd (optionButtons xs) = xs"
  by (rule nth_equalityI) (simp_all add: length_optionButtons optionButtons_nth)

text \<open>When the option buttons are rendered, and what they are.\<close>

lemma renderContent_buttons:
  assumes "renderContent s = QuestionCard q (OptionButtons bs)"
  shows "\<not> loading s \<and> question s = q \<and> isCorrect s = None \<and>
         (\<exists>xs. property q ''options'' = Some (JArr xs) \<and> bs = optionButtons xs)"
  using assms
  by (auto simp: renderContent_def Let_def split: if_splits option.splits json.splits)

lemma renderContent_answered:
  "isCorrect s \<noteq> None \<Longrightarrow> renderContent s \<noteq> QuestionCard q (OptionButtons bs)"
  using renderContent_buttons [of s q bs] by auto

subsection \<open>Every step preserves the invariants\<close>

lemma sessionInv_start: "sessionInv s \<Longrightarrow> sessionInv (loadQuestion_start s)"
  by (simp add: sessionInv_def loadQuestion_start_def)

lemma sessionInv_settle: "sessionInv s \<Longrightarrow> loading s \<Longrightarrow> sessionInv (loadQuestion_settle f s)"
  by (simp add: sessionInv_def loadQuestion_settle_def split: sum.splits)

lemma sessionInv_mount: "sessionInv mountGameSession"
  by (simp add: sessionInv_def mountGameSession_def)

lemma sessionInv_handleAnswer:
  assumes "sessionInv s" and "\<not> loading s" and "isCorrect s = None"
    and "property (question s) ''options'' = Some (JArr xs)" and "option \<in> set xs"
  shows "sessionInv (fst (handleAnswer option s))"
proof -
  from assms(1,3) have "\<not> truthyValue (selectedOption s)"
    by (simp add: sessionInv_def)
  from handleAnswer_fresh [OF this, of option] assms show ?thesis
    by (simp add: sessionInv_def)
qed

lemma handleAnswer_points:
  "snd (handleAnswer option s) = Some p \<Longrightarrow> p = 10 + 2 * streak s"
  by (simp add: handleAnswer_def Let_def split: if_splits)

lemma answer_unfold:
  "session a = Some s \<Longrightarrow>
   answer option a =
     a\<lparr>session := Some (fst (handleAnswer option s)),
       score := (case snd (handleAnswer option s) of None \<Rightarrow> score a | Some p \<Rightarrow> score a + p)\<rparr>"
  by (cases "handleAnswer option s") (auto simp: answer_def handleScoreUpdate_def split: option.splits)

lemma appInv_answer:
  assumes "appInv a" and "session a = Some s" and "\<not> loading s" and "isCorrect s = None"
    and "property (question s) ''options'' = Some (JArr xs)" and "option \<in> set xs"
  shows "appInv (answer option a)"
proof -
  from assms(1,2) have si: "sessionInv s" and sc: "0 \<le> score a" and md: "currentMode a \<noteq> MENU"
    by (simp_all add: appInv_def)
  have "0 \<le> (case snd (handleAnswer option s) of None \<Rightarrow> score a | Some p \<Rightarrow> score a + p)"
  proof (cases "snd (handleAnswer option s)")
    case None
    with sc show ?thesis by simp
  next
    case (Some p)
    from handleAnswer_points [OF Some] si sc Some show ?thesis
      by (simp add: sessionInv_def)
  qed
  with sessionInv_handleAnswer [OF si assms(3-6)] md show ?thesis
    by (simp add: answer_unfold [OF assms(2)] appInv_def)
qed

lemma appInv_selectMode: "appInv a \<Longrightarrow> m \<noteq> MENU \<Longrightarrow> appInv (selectMode m a)"
  by (simp add: appInv_def selectMode_def sessionInv_start sessionInv_mount)

lemma appInv_goToMenu: "appInv a \<Longrightarrow> appInv (goToMenu a)"
  by (simp add: appInv_def goToMenu_def)

lemma appInv_initial: "appInv initialApp"
  by (simp add: appInv_def initialApp_def)

lemma appInv_start: "appInv a \<Longrightarrow> appInv (inSession loadQuestion_start a)"
  by (auto simp: appInv_def inSession_def sessionInv_start split: option.splits)

lemma appInv_settle:
  "appInv a \<Longrightarrow> session a = Some s \<Longrightarrow> loading s \<Longrightarrow>
   appInv (inSession (loadQuestion_settle f) a)"
  by (auto simp: appInv_def inSession_def sessionInv_settle split: option.splits)

text \<open>What a step can be.\<close>

lemma step_cases:
  assumes "step P a e = Some a'"
  shows "(\<exists>m. e = ClickMode m \<and> m \<noteq> MENU \<and> currentMode a = MENU \<and> a' = selectMode m a)
       \<or> (e = ClickBack \<and> currentMode a \<noteq> MENU \<and> a' = goToMenu a)
       \<or> (\<exists>g s. e = Settles g \<and> currentMode a \<noteq> MENU \<and> session a = Some s \<and> loading s \<and>
              a' = inSession (loadQuestion_settle (fetchGameQuestion P g (currentMode a))) a)
       \<or> (\<exists>i s xs. e = ClickOption i \<and> currentMode a \<noteq> MENU \<and> session a = Some s \<and>
              \<not> loading s \<and> isCorrect s = None \<and>
              renderContent s = QuestionCard (question s) (OptionButtons (optionButtons xs)) \<and>
              property (question s) ''options'' = Some (JArr xs) \<and> i < length xs \<and>
              a' = answer (xs ! i) a)
       \<or> ((e = ClickNext \<or> e = ClickRetry) \<and> currentMode a \<noteq> MENU \<and> session a \<noteq> None \<and>
              a' = inSession loadQuestion_start a)"
proof (cases e)
  case (ClickOption i)
  from assms ClickOption obtain s q bs where s: "session a = Some s"
    and m: "currentMode a \<noteq> MENU"
    and r: "renderContent s = QuestionCard q (OptionButtons bs)"
    and i: "i < length bs" and a': "a' = answer (snd (bs ! i)) a"
    by (auto simp: step_def split: if_splits option.splits Content.splits Panel.splits)
  from renderContent_buttons [OF r] obtain xs where "\<not> loading s" "question s = q"
    "isCorrect s = None" "property q ''options'' = Some (JArr xs)" "bs = optionButtons xs"
    by blast
  with ClickOption s m r i a' show ?thesis
    by (simp add: length_optionButtons optionButtons_nth)
qed (use assms in \<open>auto simp: step_def split: if_splits option.splits Content.splits Panel.splits\<close>)

lemma step_appInv:
  assumes "appInv a" and "step P a e = Some a'"
  shows "appInv a'"
proof -
  from step_cases [OF assms(2)]
  consider m where "m \<noteq> MENU" "a' = selectMode m a"
    | "a' = goToMenu a"
    | f s where "session a = Some s" "loading s" "a' = inSession (loadQuestion_settle f) a"
    | i s xs where "session a = Some s" "\<not> loading s" "isCorrect s = None"
        "property (question s) ''options'' = Some (JArr xs)" "i < length xs"
        "a' = answer (xs ! i) a"
    | "a' = inSession loadQuestion_start a"
    by blast
  then show ?thesis
  proof cases
    case 1
    with assms(1) show ?thesis by (simp add: appInv_selectMode)
  next
    case 2
    with assms(1) show ?thesis by (simp add: appInv_goToMenu)
  next
    case 3
    with assms(1) show ?thesis by (simp add: appInv_settle)
  next
    case 4
    from 4(5) have "xs ! i \<in> set xs" by (rule nth_mem)
    from appInv_answer [OF assms(1) 4(1) 4(2) 4(3) 4(4) this] 4(6) show ?thesis by simp
  next
    case 5
    with assms(1) show ?thesis by (simp add: appInv_start)
  qed
qed

lemma run_appInv: "appInv a \<Longrightarrow> run P a es = Some a' \<Longrightarrow> appInv a'"
proof (induction es arbitrary: a)
  case Nil
  then show ?case by simp
next
  case (Cons e es)
  then show ?case by (auto split: option.splits dest: step_appInv)
qed

lemma reachable_appInv: "run P initialApp es = Some a \<Longrightarrow> appInv a"
  using run_appInv [OF appInv_initial] .

subsection \<open>Sample runs\<close>

lemma renderContent_samples:
  "renderContent \<lparr>question = sampleValue, loading = False, selectedOption = JNull,
      isCorrect = None, streak = n\<rparr> =
   QuestionCard sampleValue (OptionButtons (optionButtons
     [JStr ''Dynamite'', JStr ''Butter'', JStr ''Fake Love'', JStr ''Idol'']))"
  "renderContent \<lparr>question = unwinnableValue, loading = False, selectedOption = JNull,
      isCorrect = None, streak = n\<rparr> =
   QuestionCard unwinnableValue (OptionButtons (optionButtons [JStr ''Dynamite'', JStr ''Idol'']))"
  "renderContent \<lparr>question = blankOptionValue, loading = False, selectedOption = JNull,
      isCorrect = None, streak = n\<rparr> =
   QuestionCard blankOptionValue (OptionButtons (optionButtons
     [JStr [], JStr ''Butter'', JStr ''Fake Love'', JStr ''Idol'']))"
  "renderContent \<lparr>question = nullOptionValue, loading = False, selectedOption = JNull,
      isCorrect = None, streak = n\<rparr> =
   QuestionCard nullOptionValue (OptionButtons (optionButtons
     [JNull, JStr ''Butter'', JStr ''Fake Love'', JStr ''Idol'']))"
  by (simp_all add: renderContent_def validChildOrUndefined_def sampleValue_def
        unwinnableValue_def blankOptionValue_def nullOptionValue_def)

lemma renderContent_sampleAnswered:
  "renderContent sampleAnswered =
     QuestionCard sampleValue (ResultView True (Some (JStr ''It is Butter.'')))"
  by (simp add: renderContent_def validChildOrUndefined_def sampleValue_def sampleAnswered_def)

lemma run_loaded:
  "fetchGameQuestion P g SONG = Inr q \<Longrightarrow>
   run P initialApp [ClickMode SONG, Settles g] =
     Some \<lparr>currentMode = SONG, score = 0,
           session = Some \<lparr>question = q, loading = False, selectedOption = JNull,
                            isCorrect = None, streak = 0\<rparr>\<rparr>"
  by (simp add: step_def initialApp_def selectMode_def loadQuestion_start_def
        mountGameSession_def inSession_def loadQuestion_settle_def renderContent_def)

lemma run_append:
  "run P a es = Some a1 \<Longrightarrow> run P a (es @ es') = run P a1 es'"
  by (induction es arbitrary: a) (auto split: option.splits)

lemma run_sample_answered:
  "run JSON_parse_value initialApp
     [ClickMode SONG, Settles (respondsWith sampleText), ClickOption 1] =
   Some sampleAnsweredApp"
proof -
  have "step JSON_parse_value
      \<lparr>currentMode = SONG, score = 0,
        session = Some \<lparr>question = sampleValue, loading = False, selectedOption = JNull,
                         isCorrect = None, streak = 0\<rparr>\<rparr> (ClickOption 1) =
    Some sampleAnsweredApp"
    by (simp add: step_def renderContent_samples optionButtons_def enumerate_eq_zip
          answer_def handleAnswer_def handleScoreUpdate_def sampleAnsweredApp_def
          sampleAnswered_def)
       (simp add: sampleValue_def)
  with run_append [OF run_loaded [OF fetch_sample_simps(1)], of "[ClickOption 1]"]
  show ?thesis by simp
qed


lemma run_null_answered:
  "run JSON_parse_value initialApp
     [ClickMode SONG, Settles (respondsWith nullOptionText), ClickOption 0] =
   Some \<lparr>currentMode = SONG, score = 0, session = Some nullAnswered\<rparr>"
proof -
  have "step JSON_parse_value
      \<lparr>currentMode = SONG, score = 0,
        session = Some \<lparr>question = nullOptionValue, loading = False, selectedOption = JNull,
                         isCorrect = None, streak = 0\<rparr>\<rparr> (ClickOption 0) =
    Some \<lparr>currentMode = SONG, score = 0, session = Some nullAnswered\<rparr>"
    by (simp add: step_def renderContent_samples optionButtons_def enumerate_eq_zip
          answer_def handleAnswer_def handleScoreUpdate_def nullAnswered_def)
       (simp add: nullOptionValue_def)
  with run_append [OF run_loaded [OF fetch_sample_simps(5)], of "[ClickOption 0]"]
  show ?thesis by simp
qed

lemma step_sample_next:
  "step JSON_parse_value sampleAnsweredApp ClickNext =
     Some (inSession loadQuestion_start sampleAnsweredApp)"
  by (simp add: step_def sampleAnsweredApp_def renderContent_sampleAnswered)

lemma step_sample_settle:
  "step JSON_parse_value (inSession loadQuestion_start sampleAnsweredApp)
     (Settles (respondsWith unwinnableText)) =
   Some \<lparr>currentMode = SONG, score = 10,
         session = Some \<lparr>question = unwinnableValue, loading = False,
                          selectedOption = JNull, isCorrect = None, streak = 1\<rparr>\<rparr>"
  by (simp add: step_def inSession_def loadQuestion_start_def loadQuestion_settle_def
        sampleAnsweredApp_def sampleAnswered_def fetch_sample_simps renderContent_def)

subsection \<open>Selection and correctness\<close>



text \<open>
  Claim C5, as the code has it. In every state the application can reach: without a
  correctness there is no selection; with a correctness, the selection is the chosen
  item of the options of the question, so it is absent only if that item is \<^verbatim>\<open>null\<close>;
  hence, when no option of the question is \<^verbatim>\<open>null\<close>, selection and correctness are absent
  together or present together. Whenever the option buttons are shown the session is in
  the presenting state, with both absent. And \<^verbatim>\<open>loadQuestion\<close>, run on any session, clears
  both: they are absent as soon as it has started and still absent when it has settled.
\<close>

theorem selection_and_correctness_together:
  assumes "run P initialApp es = Some a" and "session a = Some s"
  shows "(isCorrect s = None \<longrightarrow> selectedOption s = JNull) \<and>
         (isCorrect s \<noteq> None \<longrightarrow>
            (\<exists>xs. property (question s) ''options'' = Some (JArr xs) \<and>
                  selectedOption s \<in> set xs)) \<and>
         ((\<forall>xs. property (question s) ''options'' = Some (JArr xs) \<longrightarrow> JNull \<notin> set xs) \<longrightarrow>
            (selectedOption s = JNull) = (isCorrect s = None)) \<and>
         (\<forall>q bs. renderContent s = QuestionCard q (OptionButtons bs) \<longrightarrow> presenting s q) \<and>
         selectedOption (loadQuestion_start s0) = JNull \<and>
         isCorrect (loadQuestion_start s0) = None \<and>
         selectedOption (loadQuestion P g mode s0) = JNull \<and>
         isCorrect (loadQuestion P g mode s0) = None"
proof -
  from reachable_appInv [OF assms(1)] assms(2) have inv: "sessionInv s"
    by (simp add: appInv_def)
  then have 1: "isCorrect s = None \<longrightarrow> selectedOption s = JNull"
    by (simp add: sessionInv_def)
  from inv have 2: "isCorrect s \<noteq> None \<longrightarrow>
      (\<exists>xs. property (question s) ''options'' = Some (JArr xs) \<and> selectedOption s \<in> set xs)"
    by (auto simp: sessionInv_def split: option.splits json.splits)
  from 1 2 have 3: "(\<forall>xs. property (question s) ''options'' = Some (JArr xs) \<longrightarrow>
      JNull \<notin> set xs) \<longrightarrow> (selectedOption s = JNull) = (isCorrect s = None)"
    by metis
  have 4: "presenting s q" if "renderContent s = QuestionCard q (OptionButtons bs)" for q bs
    using renderContent_buttons [OF that] 1 that by (auto simp: presenting_def)
  have 5: "selectedOption (loadQuestion_start s0) = JNull"
    "isCorrect (loadQuestion_start s0) = None"
    "selectedOption (loadQuestion P g mode s0) = JNull"
    "isCorrect (loadQuestion P g mode s0) = None"
    by (simp_all add: loadQuestion_unfold loadQuestion_start_def split: sum.splits)
  from 1 2 3 4 5 show ?thesis by blast
qed

text \<open>
  The theorem at the state reached by choosing the correct option of the first sample
  question: both are present there, and loading the next question clears both.
\<close>

theorem selection_and_correctness_together_witness:
  "run JSON_parse_value initialApp
     [ClickMode SONG, Settles (respondsWith sampleText), ClickOption 1] =
     Some sampleAnsweredApp \<and>
   session sampleAnsweredApp = Some sampleAnswered \<and>
   selectedOption sampleAnswered \<noteq> JNull \<and> isCorrect sampleAnswered \<noteq> None \<and>
   selectedOption (loadQuestion JSON_parse_value (respondsWith sampleText) SONG sampleAnswered)
     = JNull \<and>
   isCorrect (loadQuestion JSON_parse_value (respondsWith sampleText) SONG sampleAnswered)
     = None"
proof -
  have s: "session sampleAnsweredApp = Some sampleAnswered"
    by (simp add: sampleAnsweredApp_def)
  have p: "selectedOption sampleAnswered \<noteq> JNull"
    by (simp add: sampleAnswered_def)
  from selection_and_correctness_together [OF run_sample_answered s,
      where ?s0.0 = sampleAnswered and g = "respondsWith sampleText" and mode = SONG]
    run_sample_answered s p
  show ?thesis by blast
qed

text \<open>
  Claim C5 as it is stated fails: the service returns a question whose first option is
  \<^verbatim>\<open>null\<close> and the user clicks its button. \<^verbatim>\<open>handleAnswer(null)\<close> stores \<^verbatim>\<open>null\<close> as the
  selection and \<^verbatim>\<open>false\<close> as the correctness: the selection is absent and the correctness
  is present.
\<close>

theorem selection_absent_correctness_present_counterexample:
  "run JSON_parse_value initialApp
     [ClickMode SONG, Settles (respondsWith nullOptionText), ClickOption 0] =
     Some \<lparr>currentMode = SONG, score = 0, session = Some nullAnswered\<rparr> \<and>
   selectedOption nullAnswered = JNull \<and> isCorrect nullAnswered = Some False"
  using run_null_answered by (simp add: nullAnswered_def)

subsection \<open>What changes the score and the streak\<close>

lemma inSession_simps:
  "score (inSession f a) = score a"
  "currentMode (inSession f a) = currentMode a"
  "session (inSession f a) = map_option f (session a)"
  by (simp_all add: inSession_def)

lemma loadQuestion_streak: "streak (loadQuestion P g mode s) = streak s"
  by (simp add: loadQuestion_unfold split: sum.splits)

lemma streak_start: "streak (loadQuestion_start s) = streak s"
  by (simp add: loadQuestion_start_def)

lemma streak_settle: "streak (loadQuestion_settle f s) = streak s"
  by (simp add: loadQuestion_settle_def split: sum.splits)

lemma step_not_answer:
  assumes "appInv a" and "step P a e = Some a'" and "\<forall>i. e \<noteq> ClickOption i"
  shows "score a' = score a \<and>
         (\<forall>s s'. session a = Some s \<and> session a' = Some s' \<longrightarrow> streak s' = streak s) \<and>
         (session a' = None) = (e = ClickBack) \<and>
         (session a = None) = (\<exists>m. e = ClickMode m) \<and>
         (session a = None \<longrightarrow> map_option streak (session a') = Some 0)"
proof -
  from step_cases [OF assms(2)] assms(3)
  consider m where "e = ClickMode m" "currentMode a = MENU" "a' = selectMode m a"
    | "e = ClickBack" "currentMode a \<noteq> MENU" "a' = goToMenu a"
    | f where "\<forall>m. e \<noteq> ClickMode m" "e \<noteq> ClickBack" "currentMode a \<noteq> MENU"
        "session a \<noteq> None" "a' = inSession f a" "\<forall>s. streak (f s) = streak s"
    using streak_start streak_settle by fastforce
  then show ?thesis
  proof cases
    case 1
    with assms(1) show ?thesis
      by (simp add: appInv_def selectMode_def loadQuestion_start_def mountGameSession_def)
  next
    case 2
    with assms(1) show ?thesis by (simp add: goToMenu_def appInv_def)
  next
    case 3
    with assms(1) show ?thesis by (auto simp: inSession_simps appInv_def)
  qed
qed

text \<open>
  Claim C6, as the code has it. For every mode, when the fetch throws, \<^verbatim>\<open>loadQuestion\<close>
  ends in the error display with no question and with the streak it started with, and the
  application around it has the score and the streak it had. From every reachable state, a
  step that is not the click on an option leaves the score as it is: only the submission
  of an answer changes the score. Such a step also leaves the streak as it is where a
  session is mounted before and after it. But the streak is a cell of the session: the
  back button unmounts the session and its streak with it, and the session that a click
  in the menu mounts starts with streak 0.
\<close>

theorem failed_load_keeps_score_and_streak:
  "(fetchGameQuestion P g mode = Inl err \<longrightarrow>
      errorDisplay (loadQuestion P g mode s) \<and>
      question (loadQuestion P g mode s) = JNull \<and>
      streak (loadQuestion P g mode s) = streak s \<and>
      score (inSession (loadQuestion P g mode) a) = score a \<and>
      map_option streak (session (inSession (loadQuestion P g mode) a)) =
        map_option streak (session a)) \<and>
   (run P initialApp es = Some a \<and> step P a e = Some a' \<and> (\<forall>i. e \<noteq> ClickOption i) \<longrightarrow>
      score a' = score a \<and>
      (\<forall>s s'. session a = Some s \<and> session a' = Some s' \<longrightarrow> streak s' = streak s) \<and>
      (session a' = None) = (e = ClickBack) \<and>
      (session a = None) = (\<exists>m. e = ClickMode m) \<and>
      (session a = None \<longrightarrow> map_option streak (session a') = Some 0))"
proof (intro conjI impI)
  assume "fetchGameQuestion P g mode = Inl err"
  then show "errorDisplay (loadQuestion P g mode s)"
    by (simp add: loadQuestion_unfold errorDisplay_def)
next
  assume "fetchGameQuestion P g mode = Inl err"
  then show "question (loadQuestion P g mode s) = JNull"
    by (simp add: loadQuestion_unfold)
next
  show "streak (loadQuestion P g mode s) = streak s"
    by (rule loadQuestion_streak)
next
  show "score (inSession (loadQuestion P g mode) a) = score a"
    by (rule inSession_simps)
next
  show "map_option streak (session (inSession (loadQuestion P g mode) a)) =
      map_option streak (session a)"
    by (cases "session a") (simp_all add: inSession_simps loadQuestion_streak)
next
  assume h: "run P initialApp es = Some a \<and> step P a e = Some a' \<and> (\<forall>i. e \<noteq> ClickOption i)"
  then have inv: "appInv a" and st: "step P a e = Some a'" and ne: "\<forall>i. e \<noteq> ClickOption i"
    by (blast intro: reachable_appInv)+
  note r = step_not_answer [OF inv st ne]
  from r show "score a' = score a" by blast
  from r show "\<forall>s s'. session a = Some s \<and> session a' = Some s' \<longrightarrow> streak s' = streak s"
    by blast
  from r show "(session a' = None) = (e = ClickBack)" by blast
  from r show "(session a = None) = (\<exists>m. e = ClickMode m)" by blast
  assume "session a = None"
  with r show "map_option streak (session a') = Some 0" by blast
qed

text \<open>
  The theorem at score 10 and streak 1: a load whose call is rejected keeps both, and so
  does the click on the next-question button.
\<close>

theorem failed_load_keeps_score_and_streak_witness:
  "fetchGameQuestion JSON_parse_value unreachableService SONG = Inl RequestFailed \<and>
   score sampleAnsweredApp = 10 \<and>
   score (inSession (loadQuestion JSON_parse_value unreachableService SONG) sampleAnsweredApp)
     = 10 \<and>
   map_option streak
     (session (inSession (loadQuestion JSON_parse_value unreachableService SONG)
        sampleAnsweredApp)) = Some 1 \<and>
   errorDisplay (loadQuestion JSON_parse_value unreachableService SONG sampleAnswered) \<and>
   run JSON_parse_value initialApp
     [ClickMode SONG, Settles (respondsWith sampleText), ClickOption 1] =
     Some sampleAnsweredApp \<and>
   step JSON_parse_value sampleAnsweredApp ClickNext =
     Some (inSession loadQuestion_start sampleAnsweredApp) \<and>
   score (inSession loadQuestion_start sampleAnsweredApp) = 10"
proof -
  have f: "fetchGameQuestion JSON_parse_value unreachableService SONG = Inl RequestFailed"
    by (rule fetch_sample_simps)
  have v: "score sampleAnsweredApp = 10"
    "map_option streak (session sampleAnsweredApp) = Some 1"
    by (simp_all add: sampleAnsweredApp_def sampleAnswered_def)
  have n: "\<forall>i. ClickNext \<noteq> ClickOption i" by simp
  from failed_load_keeps_score_and_streak [of JSON_parse_value unreachableService SONG
      RequestFailed sampleAnswered sampleAnsweredApp
      "[ClickMode SONG, Settles (respondsWith sampleText), ClickOption 1]"
      ClickNext "inSession loadQuestion_start sampleAnsweredApp"]
    f v n run_sample_answered step_sample_next
  show ?thesis by simp
qed

text \<open>
  Claim C6 as it is stated fails for the streak: after one correct answer the streak is
  1; the back button and a click in the menu, neither of which submits an answer, lead to
  a session whose streak is 0, while the score is still 10.
\<close>

theorem streak_reset_without_answer_counterexample:
  "run JSON_parse_value initialApp
     [ClickMode SONG, Settles (respondsWith sampleText), ClickOption 1] =
     Some sampleAnsweredApp \<and>
   map_option streak (session sampleAnsweredApp) = Some 1 \<and>
   run JSON_parse_value sampleAnsweredApp [ClickBack, ClickMode SONG] =
     Some \<lparr>currentMode = SONG, score = 10, session = Some mountGameSession\<rparr> \<and>
   streak mountGameSession = 0"
proof -
  have 1: "step JSON_parse_value sampleAnsweredApp ClickBack =
      Some \<lparr>currentMode = MENU, score = 10, session = None\<rparr>"
    by (simp add: step_def sampleAnsweredApp_def renderContent_sampleAnswered goToMenu_def)
  have 2: "step JSON_parse_value \<lparr>currentMode = MENU, score = 10, session = None\<rparr>
      (ClickMode SONG) = Some \<lparr>currentMode = SONG, score = 10, session = Some mountGameSession\<rparr>"
    by (simp add: step_def selectMode_def loadQuestion_start_def mountGameSession_def)
  have 3: "map_option streak (session sampleAnsweredApp) = Some 1"
    "streak mountGameSession = 0"
    by (simp_all add: sampleAnsweredApp_def sampleAnswered_def mountGameSession_def)
  from 1 2 3 run_sample_answered show ?thesis by simp
qed

text \<open>
  Claim C7. \<^verbatim>\<open>loadQuestion\<close> keeps the streak of the session and the score of the
  application. The click on the next-question button followed by the settling of its
  fetch is \<^verbatim>\<open>loadQuestion\<close> on the mounted session, and leaves score and streak as they
  were. \<^verbatim>\<open>goToMenu\<close>, which is what the back button does, sets the mode to the menu and
  unmounts the session with its question; the score stays.
\<close>

theorem score_and_streak_persist:
  "streak (loadQuestion P g mode s) = streak s \<and>
   score (inSession (loadQuestion P g mode) a) = score a \<and>
   (step P a ClickNext = Some a1 \<and> step P a1 (Settles g) = Some a2 \<longrightarrow>
      a2 = inSession (loadQuestion P g (currentMode a)) a \<and>
      score a2 = score a \<and>
      map_option streak (session a2) = map_option streak (session a)) \<and>
   score (goToMenu a) = score a \<and> session (goToMenu a) = None \<and>
   currentMode (goToMenu a) = MENU \<and>
   (step P a ClickBack = Some a' \<longrightarrow> a' = goToMenu a)"
proof -
  have next_settle: "a2 = inSession (loadQuestion P g (currentMode a)) a"
    if "step P a ClickNext = Some a1" "step P a1 (Settles g) = Some a2"
  proof -
    from step_cases [OF that(1)] have a1: "a1 = inSession loadQuestion_start a"
      by auto
    from step_cases [OF that(2)] have "a2 = inSession (loadQuestion_settle
        (fetchGameQuestion P g (currentMode a1))) a1"
      by auto
    with a1 show ?thesis
      by (cases "session a") (simp_all add: inSession_def loadQuestion_def)
  qed
  have keep: "map_option streak (session (inSession (loadQuestion P g m) a)) =
      map_option streak (session a)" for m
    by (cases "session a") (simp_all add: inSession_simps loadQuestion_streak)
  have menu: "a' = goToMenu a" if "step P a ClickBack = Some a'"
    using step_cases [OF that] by auto
  have nxt: "step P a ClickNext = Some a1 \<and> step P a1 (Settles g) = Some a2 \<longrightarrow>
      a2 = inSession (loadQuestion P g (currentMode a)) a \<and>
      score a2 = score a \<and>
      map_option streak (session a2) = map_option streak (session a)"
    using next_settle keep [of "currentMode a"] by (auto simp: inSession_simps)
  from nxt menu show ?thesis
    by (simp add: loadQuestion_streak inSession_simps goToMenu_def)
qed

text \<open>
  The theorem at score 10 and streak 1: the next question arrives with score 10 and
  streak 1, and the back button leads to the menu with score 10.
\<close>

theorem score_and_streak_persist_witness:
  "step JSON_parse_value sampleAnsweredApp ClickNext =
     Some (inSession loadQuestion_start sampleAnsweredApp) \<and>
   step JSON_parse_value (inSession loadQuestion_start sampleAnsweredApp)
     (Settles (respondsWith unwinnableText)) =
     Some \<lparr>currentMode = SONG, score = 10,
           session = Some \<lparr>question = unwinnableValue, loading = False,
                            selectedOption = JNull, isCorrect = None, streak = 1\<rparr>\<rparr> \<and>
   score sampleAnsweredApp = 10 \<and> streak sampleAnswered = 1 \<and>
   step JSON_parse_value sampleAnsweredApp ClickBack =
     Some \<lparr>currentMode = MENU, score = 10, session = None\<rparr>"
proof -
  have b: "step JSON_parse_value sampleAnsweredApp ClickBack = Some (goToMenu sampleAnsweredApp)"
    by (simp add: step_def sampleAnsweredApp_def renderContent_sampleAnswered)
  have g: "goToMenu sampleAnsweredApp = \<lparr>currentMode = MENU, score = 10, session = None\<rparr>"
    by (simp add: goToMenu_def sampleAnsweredApp_def)
  have v: "score sampleAnsweredApp = 10" "streak sampleAnswered = 1"
    by (simp_all add: sampleAnsweredApp_def sampleAnswered_def)
  from score_and_streak_persist [of JSON_parse_value "respondsWith unwinnableText" SONG
      sampleAnswered sampleAnsweredApp "inSession loadQuestion_start sampleAnsweredApp"
      "\<lparr>currentMode = SONG, score = 10,
         session = Some \<lparr>question = unwinnableValue, loading = False,
                          selectedOption = JNull, isCorrect = None, streak = 1\<rparr>\<rparr>"
      "goToMenu sampleAnsweredApp"]
    step_sample_next step_sample_settle b g v
  show ?thesis by simp
qed

subsection \<open>A question that cannot be answered correctly\<close>

text \<open>
  Claim C8. Let the session present a question whose correct answer is not among the
  items of its options. Then \<^verbatim>\<open>handleAnswer\<close> with any of the options records it as
  incorrect, sets the streak to 0 and does not call \<^verbatim>\<open>updateScore\<close>; and the click on any
  option button leaves the score as it is, with the correctness \<open>False\<close> and the streak 0.
\<close>

theorem unwinnable_question_never_correct:
  assumes "presenting s q" and "property q ''options'' = Some (JArr xs)"
    and "\<forall>c. property q ''correctAnswer'' = Some c \<longrightarrow> c \<notin> set xs"
  shows "(option \<in> set xs \<longrightarrow>
            handleAnswer option s =
              (s\<lparr>selectedOption := option, isCorrect := Some False, streak := 0\<rparr>, None)) \<and>
         (session a = Some s \<and> step P a (ClickOption i) = Some a' \<longrightarrow>
            score a' = score a \<and>
            map_option isCorrect (session a') = Some (Some False) \<and>
            map_option streak (session a') = Some 0)"
proof -
  from assms(1) have q: "question s = q" and sel: "\<not> truthyValue (selectedOption s)"
    by (simp_all add: presenting_def)
  have wrong: "handleAnswer x s =
      (s\<lparr>selectedOption := x, isCorrect := Some False, streak := 0\<rparr>, None)"
    if "x \<in> set xs" for x
  proof -
    have "\<not> strictEquals x (property q ''correctAnswer'')"
    proof (cases "property q ''correctAnswer''")
      case None
      then show ?thesis by (cases x) simp_all
    next
      case (Some c)
      with assms(3) that have "x \<noteq> c" by auto
      with Some show ?thesis by (auto dest: strictEquals_eq)
    qed
    then show ?thesis by (simp add: handleAnswer_fresh [OF sel] q)
  qed
  have click: "score a' = score a \<and>
      map_option isCorrect (session a') = Some (Some False) \<and>
      map_option streak (session a') = Some 0"
    if sa: "session a = Some s" and st: "step P a (ClickOption i) = Some a'"
  proof -
    from step_cases [OF st] sa q assms(2)
    have i: "i < length xs" and a': "a' = answer (xs ! i) a"
      by auto
    from i have "xs ! i \<in> set xs" by (rule nth_mem)
    from wrong [OF this] show ?thesis
      by (simp add: a' answer_def sa)
  qed
  from wrong click show ?thesis by blast
qed

text \<open>
  The theorem at a question with the options Dynamite and Idol and the correct answer
  Butter, at streak 2 and score 22.
\<close>

theorem unwinnable_question_never_correct_witness:
  "presenting unwinnableSession unwinnableValue \<and>
   property unwinnableValue ''options'' = Some (JArr [JStr ''Dynamite'', JStr ''Idol'']) \<and>
   property unwinnableValue ''correctAnswer'' = Some (JStr ''Butter'') \<and>
   handleAnswer (JStr ''Idol'') unwinnableSession =
     (unwinnableSession\<lparr>selectedOption := JStr ''Idol'', isCorrect := Some False, streak := 0\<rparr>,
      None) \<and>
   step JSON_parse_value \<lparr>currentMode = SONG, score = 22, session = Some unwinnableSession\<rparr>
     (ClickOption 0) =
     Some \<lparr>currentMode = SONG, score = 22,
           session = Some (unwinnableSession\<lparr>selectedOption := JStr ''Dynamite'',
                             isCorrect := Some False, streak := 0\<rparr>)\<rparr>"
proof -
  have p: "presenting unwinnableSession unwinnableValue"
    by (simp add: presenting_def unwinnableSession_def renderContent_samples)
  have o: "property unwinnableValue ''options'' = Some (JArr [JStr ''Dynamite'', JStr ''Idol''])"
    and c: "property unwinnableValue ''correctAnswer'' = Some (JStr ''Butter'')"
    by (simp_all add: unwinnableValue_def)
  from c have n: "\<forall>c. property unwinnableValue ''correctAnswer'' = Some c \<longrightarrow>
      c \<notin> set [JStr ''Dynamite'', JStr ''Idol'']"
    by simp
  have st: "step JSON_parse_value
      \<lparr>currentMode = SONG, score = 22, session = Some unwinnableSession\<rparr> (ClickOption 0) =
    Some \<lparr>currentMode = SONG, score = 22,
           session = Some (unwinnableSession\<lparr>selectedOption := JStr ''Dynamite'',
                             isCorrect := Some False, streak := 0\<rparr>)\<rparr>"
    by (simp add: step_def unwinnableSession_def renderContent_samples optionButtons_def
          enumerate_eq_zip answer_def handleAnswer_def)
       (simp add: unwinnableValue_def)
  from unwinnable_question_never_correct [OF p o n, of "JStr ''Idol''"] p o c st
  show ?thesis by simp
qed

subsection \<open>The labels of the option buttons\<close>

text \<open>The code units from 65 on are the capital letters, as far as the alphabet goes.\<close>

lemma capital_letter:
  "i < 26 \<Longrightarrow> fromCharCode (65 + i) = of_char (''ABCDEFGHIJKLMNOPQRSTUVWXYZ'' ! i)"
proof -
  assume "i < 26"
  then have "i \<in> set [0..<26]" by simp
  then have "i \<in> {0,1,2,3,4,5,6,7,8,9,10,11,12,13,14,15,16,17,18,19,20,21,22,23,24,25}"
    by (simp add: upt_rec numeral_eq_Suc)
  then show ?thesis
    by (auto simp: fromCharCode_def)
qed

text \<open>With four options the labels are A, B, C and D.\<close>

lemma four_options_labels:
  "length xs = 4 \<Longrightarrow> map fst (optionButtons xs) = map of_char ''ABCD''"
proof -
  assume "length xs = 4"
  then obtain a b c d where "xs = [a, b, c, d]"
    by (auto simp: numeral_eq_Suc length_Suc_conv)
  then show ?thesis
    by (simp add: optionButtons_def enumerate_eq_zip fromCharCode_def upt_rec)
qed

text \<open>
  Claim C9. In the presenting state the component renders the option buttons of the
  question. Their options are the items of the options array of the question, in the
  order of the array. The button at index \<open>i\<close> carries the label of code unit \<open>65 + i\<close>,
  which depends on the index only and is the \<open>i\<close>-th capital letter for every index below
  26: A at 0, B at 1 and so on. A question with four options is labelled A, B, C, D.
\<close>

theorem option_labels_positional:
  assumes "presenting s q"
  shows "\<exists>xs. property q ''options'' = Some (JArr xs) \<and>
           renderContent s = QuestionCard q (OptionButtons (optionButtons xs)) \<and>
           map snd (optionButtons xs) = xs \<and>
           (\<forall>i<length xs.
              optionButtons xs ! i = (fromCharCode (65 + i), xs ! i) \<and>
              (i < 26 \<longrightarrow>
                 fst (optionButtons xs ! i) = of_char (''ABCDEFGHIJKLMNOPQRSTUVWXYZ'' ! i))) \<and>
           (length xs = 4 \<longrightarrow> map fst (optionButtons xs) = map of_char ''ABCD'')"
proof -
  from assms have cells: "\<not> loading s" "isCorrect s = None" "question s = q"
    and t: "truthyValue q"
    and v: "validChildOrUndefined (property q ''questionText'')"
      "validChildOrUndefined (property q ''details'')"
    and "\<exists>xs. property q ''options'' = Some (JArr xs) \<and> list_all validChild xs"
    by (simp_all add: presenting_iff)
  then obtain xs where xs: "property q ''options'' = Some (JArr xs)"
    and all: "list_all validChild xs"
    by blast
  have r: "renderContent s = QuestionCard q (OptionButtons (optionButtons xs))"
    using cells t v xs all by (simp add: renderContent_def)
  have labels: "\<forall>i<length xs.
      optionButtons xs ! i = (fromCharCode (65 + i), xs ! i) \<and>
      (i < 26 \<longrightarrow>
         fst (optionButtons xs ! i) = of_char (''ABCDEFGHIJKLMNOPQRSTUVWXYZ'' ! i))"
    by (simp add: optionButtons_nth capital_letter)
  have four: "length xs = 4 \<longrightarrow> map fst (optionButtons xs) = map of_char ''ABCD''"
    using four_options_labels [of xs] by (rule impI)
  from xs r map_snd_optionButtons [of xs] labels four show ?thesis by blast
qed

text \<open>The theorem at the first sample question: the labels are A, B, C and D.\<close>

theorem option_labels_positional_witness:
  "presenting sampleSession sampleValue \<and>
   property sampleValue ''options'' =
     Some (JArr [JStr ''Dynamite'', JStr ''Butter'', JStr ''Fake Love'', JStr ''Idol'']) \<and>
   renderContent sampleSession =
     QuestionCard sampleValue
       (OptionButtons [(of_char CHR ''A'', JStr ''Dynamite''), (of_char CHR ''B'', JStr ''Butter''),
                       (of_char CHR ''C'', JStr ''Fake Love''), (of_char CHR ''D'', JStr ''Idol'')])"
proof -
  have p: "presenting sampleSession sampleValue"
    by (simp add: presenting_def sampleSession_def renderContent_samples)
  have o: "property sampleValue ''options'' =
      Some (JArr [JStr ''Dynamite'', JStr ''Butter'', JStr ''Fake Love'', JStr ''Idol''])"
    by (simp add: sampleValue_def)
  have b: "optionButtons [JStr ''Dynamite'', JStr ''Butter'', JStr ''Fake Love'', JStr ''Idol''] =
      [(of_char CHR ''A'', JStr ''Dynamite''), (of_char CHR ''B'', JStr ''Butter''),
       (of_char CHR ''C'', JStr ''Fake Love''), (of_char CHR ''D'', JStr ''Idol'')]"
    by (simp add: optionButtons_def enumerate_eq_zip fromCharCode_def)
  from option_labels_positional [OF p] o b p show ?thesis by auto
qed

subsection \<open>The score never decreases\<close>

lemma step_score:
  assumes "appInv a" and "step P a e = Some a'"
  shows "score a' = score a \<or>
         (\<exists>s. session a = Some s \<and> score a' = score a + (10 + 2 * streak s) \<and> 0 \<le> streak s)"
proof (cases "\<exists>i. e = ClickOption i")
  case False
  then have "\<forall>i. e \<noteq> ClickOption i" by simp
  from step_not_answer [OF assms this] show ?thesis by simp
next
  case True
  then obtain i where e: "e = ClickOption i" ..
  from step_cases [OF assms(2)] e obtain s option where s: "session a = Some s"
    and a': "a' = answer option a"
    by auto
  from assms(1) s have "0 \<le> streak s" by (simp add: appInv_def sessionInv_def)
  with handleAnswer_points [of option s] s show ?thesis
    by (cases "snd (handleAnswer option s)") (auto simp: a' answer_unfold [OF s])
qed

lemma step_score_mono: "appInv a \<Longrightarrow> step P a e = Some a' \<Longrightarrow> score a \<le> score a'"
  using step_score [of a P e a'] by auto

lemma run_score_mono: "appInv a \<Longrightarrow> run P a es = Some a' \<Longrightarrow> score a \<le> score a'"
proof (induction es arbitrary: a)
  case Nil
  then show ?case by simp
next
  case (Cons e es)
  from Cons.prems(2) obtain a1 where 1: "step P a e = Some a1" and 2: "run P a1 es = Some a'"
    by (auto split: option.splits)
  from step_appInv [OF Cons.prems(1) 1] have "appInv a1" .
  from Cons.IH [OF this 2] step_score_mono [OF Cons.prems(1) 1] show ?case by simp
qed

text \<open>
  Claim C10. The score starts at 0. In every state the application can reach, the score
  and the streak are not negative; a step from there never lowers the score, and when it
  changes the score it adds \<open>10 + 2 * streak\<close>, which is at least 10; and the score at
  the end of any further run is at least the score now.
\<close>

theorem score_never_decreases:
  assumes "run P initialApp es = Some a"
  shows "score initialApp = 0 \<and> 0 \<le> score a \<and>
         (\<forall>s. session a = Some s \<longrightarrow> 0 \<le> streak s) \<and>
         (\<forall>e a'. step P a e = Some a' \<longrightarrow>
            score a \<le> score a' \<and>
            (score a' \<noteq> score a \<longrightarrow>
               (\<exists>s. session a = Some s \<and> score a' = score a + (10 + 2 * streak s) \<and>
                    10 \<le> 10 + 2 * streak s))) \<and>
         (\<forall>es' a'. run P a es' = Some a' \<longrightarrow> score a \<le> score a')"
proof -
  from reachable_appInv [OF assms] have inv: "appInv a" .
  have 1: "score initialApp = 0" by (simp add: initialApp_def)
  from inv have 2: "0 \<le> score a" by (simp add: appInv_def)
  from inv have 3: "\<forall>s. session a = Some s \<longrightarrow> 0 \<le> streak s"
    by (auto simp: appInv_def sessionInv_def)
  have 4: "score a \<le> score a' \<and>
      (score a' \<noteq> score a \<longrightarrow>
         (\<exists>s. session a = Some s \<and> score a' = score a + (10 + 2 * streak s) \<and>
              10 \<le> 10 + 2 * streak s))" if "step P a e = Some a'" for e a'
    using step_score [OF inv that] by auto
  have 5: "score a \<le> score a'" if "run P a es' = Some a'" for es' a'
    using run_score_mono [OF inv that] .
  from 1 2 3 4 5 show ?thesis by blast
qed

text \<open>
  The theorem at the start and at the state reached by one correct answer: the score goes
  from 0 to 10, the streak is 1, and the next step keeps the score.
\<close>

theorem score_never_decreases_witness:
  "run JSON_parse_value initialApp [] = Some initialApp \<and>
   run JSON_parse_value initialApp
     [ClickMode SONG, Settles (respondsWith sampleText), ClickOption 1] =
     Some sampleAnsweredApp \<and>
   score initialApp = 0 \<and> score sampleAnsweredApp = 10 \<and>
   score initialApp \<le> score sampleAnsweredApp \<and>
   session sampleAnsweredApp = Some sampleAnswered \<and> streak sampleAnswered = 1 \<and>
   step JSON_parse_value sampleAnsweredApp ClickNext =
     Some (inSession loadQuestion_start sampleAnsweredApp) \<and>
   score sampleAnsweredApp \<le> score (inSession loadQuestion_start sampleAnsweredApp)"
proof -
  have e: "run JSON_parse_value initialApp [] = Some initialApp" by simp
  have v: "score initialApp = 0" "score sampleAnsweredApp = 10"
    "session sampleAnsweredApp = Some sampleAnswered" "streak sampleAnswered = 1"
    by (simp_all add: initialApp_def sampleAnsweredApp_def sampleAnswered_def)
  from score_never_decreases [OF e] run_sample_answered
  have 1: "score initialApp \<le> score sampleAnsweredApp"
    by blast
  from score_never_decreases [OF run_sample_answered] step_sample_next
  have 2: "score sampleAnsweredApp \<le> score (inSession loadQuestion_start sampleAnsweredApp)"
    by blast
  from e v 1 2 run_sample_answered step_sample_next show ?thesis by simp
qed

end
